theory Spec2Isabelle
  imports Complex_Main
begin

section \<open>Data model of App.js\<close>

text \<open>
  The window dimensions come from \<^verbatim>\<open>Dimensions.get("window")\<close> at module load; they are
  not fixed by the source, so every function that reads them takes the window as a parameter.
\<close>

record window =
  screenWidth :: real
  screenHeight :: real

definition PLAYER_WIDTH :: real where "PLAYER_WIDTH = 50"
definition PLAYER_HEIGHT :: real where "PLAYER_HEIGHT = 50"
definition BULLET_WIDTH :: real where "BULLET_WIDTH = 10"
definition BULLET_HEIGHT :: real where "BULLET_HEIGHT = 20"
definition BLOCK_WIDTH :: real where "BLOCK_WIDTH = 40"
definition BLOCK_HEIGHT :: real where "BLOCK_HEIGHT = 40"

text \<open>
  Bullets and falling blocks are objects \<^verbatim>\<open>{ id, x, y }\<close>. The id is a reading of
  \<^verbatim>\<open>Date.now()\<close> (integer milliseconds); the coordinates are JavaScript numbers, modelled
  as reals. The fields are named \<open>ident\<close>, \<open>xpos\<close>, \<open>ypos\<close> because \<open>id\<close>, \<open>x\<close> and \<open>y\<close>
  would shadow the identity function and the usual variable names.
\<close>

record entity =
  ident :: int
  xpos :: real
  ypos :: real

text \<open>The \<^verbatim>\<open>useState\<close> cells and the \<^verbatim>\<open>useRef\<close> cell of the component \<^verbatim>\<open>App\<close>.\<close>

record game =
  playerX :: real
  bullets :: "entity list"
  fallingBlocks :: "entity list"
  gameOver :: bool
  score :: int
  gameStarted :: bool
  level :: int
  levelTransition :: bool
  countdown :: int
  bulletsRef :: "entity list"

definition initial :: "window \<Rightarrow> game" where
  "initial w =
     \<lparr> playerX = (screenWidth w - PLAYER_WIDTH) / 2,
       bullets = [],
       fallingBlocks = [],
       gameOver = False,
       score = 0,
       gameStarted = False,
       level = 1,
       levelTransition = False,
       countdown = 10,
       bulletsRef = [] \<rparr>"

section \<open>Collision test\<close>

text \<open>
  \<^verbatim>\<open>isColliding(a, b, aWidth, aHeight, bWidth, bHeight)\<close>, lines 22 to 29. The four sizes
  are explicit here; \<open>collides\<close> is the call \<^verbatim>\<open>isColliding(bullet, block)\<close> of the
  collision callback, where the sizes take their default values.
\<close>

definition isColliding :: "entity \<Rightarrow> entity \<Rightarrow> real \<Rightarrow> real \<Rightarrow> real \<Rightarrow> real \<Rightarrow> bool" where
  "isColliding a b aWidth aHeight bWidth bHeight \<longleftrightarrow>
     xpos a < xpos b + bWidth \<and>
     xpos a + aWidth > xpos b \<and>
     ypos a < ypos b + bHeight \<and>
     ypos a + aHeight > ypos b"

definition collides :: "entity \<Rightarrow> entity \<Rightarrow> bool" where
  "collides bullet block =
     isColliding bullet block BULLET_WIDTH BULLET_HEIGHT BLOCK_WIDTH BLOCK_HEIGHT"

section \<open>The guard shared by the gameplay effects and by the fire handler\<close>

text \<open>
  Every gameplay effect and \<^verbatim>\<open>handleBullets\<close> start with
  \<^verbatim>\<open>if (!gameStarted || gameOver || levelTransition) return;\<close>. \<open>playing\<close> is the negation
  of that test.
\<close>

definition playing :: "game \<Rightarrow> bool" where
  "playing s \<longleftrightarrow> \<not> (\<not> gameStarted s \<or> gameOver s \<or> levelTransition s)"

section \<open>Handlers and timer callbacks\<close>

text \<open>Accelerometer listener, lines 48 to 54; it is subscribed only while playing.\<close>

definition tiltUpdate :: "window \<Rightarrow> real \<Rightarrow> real \<Rightarrow> real" where
  "tiltUpdate w tilt prevX =
     (let move = tilt * 30;
          nextX = prevX + move
      in max 0 (min (screenWidth w - PLAYER_WIDTH) nextX))"

definition accelerometerListener :: "window \<Rightarrow> real \<Rightarrow> game \<Rightarrow> game" where
  "accelerometerListener w tilt s =
     (if \<not> playing s then s else s\<lparr>playerX := tiltUpdate w tilt (playerX s)\<rparr>)"

text \<open>Bullet motion interval, lines 62 to 68.\<close>

definition bulletInterval :: "game \<Rightarrow> game" where
  "bulletInterval s =
     (if \<not> playing s then s
      else s\<lparr>bullets :=
             filter (\<lambda>b. ypos b + 20 > 0)
               (map (\<lambda>b. b\<lparr>ypos := ypos b - 15\<rparr>) (bullets s))\<rparr>)"

text \<open>
  Spawn interval, lines 79 to 87. \<open>now\<close> is the value of \<^verbatim>\<open>Date.now()\<close> and \<open>rnd\<close> the
  value of \<^verbatim>\<open>Math.random()\<close> at the firing.
\<close>

definition spawnBlock :: "window \<Rightarrow> int \<Rightarrow> real \<Rightarrow> game \<Rightarrow> game" where
  "spawnBlock w now rnd s =
     (if \<not> playing s then s
      else
        (let block = \<lparr> ident = now, xpos = rnd * (screenWidth w - PLAYER_WIDTH), ypos = - 50 \<rparr>
         in s\<lparr>fallingBlocks := fallingBlocks s @ [block]\<rparr>))"

text \<open>
  Countdown interval, lines 104 to 118; the interval exists only while \<open>levelTransition\<close>
  holds (line 99).
\<close>

definition countdownInterval :: "game \<Rightarrow> game" where
  "countdownInterval s =
     (if \<not> levelTransition s then s
      else
        (let newCount = countdown s - 1
         in if newCount \<le> 0
            then s\<lparr>level := 2, levelTransition := False,
                   fallingBlocks := [], bullets := [], countdown := 10\<rparr>
            else s\<lparr>countdown := newCount\<rparr>))"

text \<open>
  Hit detection, lines 131 to 143: the nested \<^verbatim>\<open>forEach\<close> over the bullets of the ref and
  the previous blocks, carrying the set \<open>hitBlockIds\<close> and the counter \<open>blocksHit\<close>.
\<close>

definition hitCheck :: "entity \<Rightarrow> entity \<Rightarrow> int set \<times> int \<Rightarrow> int set \<times> int" where
  "hitCheck bullet block acc =
     (if ident block \<notin> fst acc \<and> collides bullet block
      then (insert (ident block) (fst acc), snd acc + 1)
      else acc)"

definition detectHits :: "entity list \<Rightarrow> entity list \<Rightarrow> int set \<times> int" where
  "detectHits currentBullets prevBlocks =
     fold (\<lambda>bullet. fold (\<lambda>block. hitCheck bullet block) prevBlocks) currentBullets ({}, 0)"

definition hitBlockIds :: "game \<Rightarrow> int set" where
  "hitBlockIds s = fst (detectHits (bulletsRef s) (fallingBlocks s))"

definition blocksHit :: "game \<Rightarrow> int" where
  "blocksHit s = snd (detectHits (bulletsRef s) (fallingBlocks s))"

text \<open>Score update and bullet consumption, lines 146 to 164.\<close>

definition consumeBullets :: "game \<Rightarrow> entity list" where
  "consumeBullets s =
     filter (\<lambda>bullet.
        \<not> list_ex (\<lambda>block. ident block \<in> hitBlockIds s \<and> collides bullet block)
             (fallingBlocks s))
       (bullets s)"

definition scoreHits :: "game \<Rightarrow> game" where
  "scoreHits s =
     (if blocksHit s > 0
      then
        (let newTotalScore = score s + blocksHit s * 10;
             s1 = (if newTotalScore \<ge> 50 \<and> level s = 1 \<and> \<not> levelTransition s
                   then s\<lparr>levelTransition := True, countdown := 10\<rparr>
                   else s)
         in s1\<lparr>score := newTotalScore, bullets := consumeBullets s\<rparr>)
      else s)"

text \<open>Block motion, game-over test and block filter, lines 166 to 209.\<close>

definition fallSpeed :: "game \<Rightarrow> real" where
  "fallSpeed s = (if level s = 1 then 3 else 6)"

definition movedBlocks :: "game \<Rightarrow> entity list" where
  "movedBlocks s = map (\<lambda>b. b\<lparr>ypos := ypos b + fallSpeed s\<rparr>) (fallingBlocks s)"

definition playerTopY :: "window \<Rightarrow> real" where
  "playerTopY w = screenHeight w - 20 - PLAYER_HEIGHT"

definition shouldGameOver :: "window \<Rightarrow> game \<Rightarrow> bool" where
  "shouldGameOver w s =
     fold (\<lambda>block flag.
         if ident block \<notin> hitBlockIds s
         then (let blockBottom = ypos block + BLOCK_HEIGHT
               in if blockBottom \<ge> playerTopY w then True else flag)
         else flag)
       (movedBlocks s) False"

definition keepBlock :: "window \<Rightarrow> game \<Rightarrow> entity \<Rightarrow> bool" where
  "keepBlock w s block =
     (if ident block \<in> hitBlockIds s then False
      else
        (let blockBottom = ypos block + BLOCK_HEIGHT
         in if blockBottom \<ge> playerTopY w then False
            else ypos block < screenHeight w + 50))"

text \<open>The whole updater passed to \<^verbatim>\<open>setFallingBlocks\<close>, lines 130 to 210.\<close>

definition collisionCallback :: "window \<Rightarrow> game \<Rightarrow> game" where
  "collisionCallback w s =
     (let s1 = scoreHits s;
          s2 = (if shouldGameOver w s then s1\<lparr>gameOver := True\<rparr> else s1)
      in s2\<lparr>fallingBlocks := filter (keepBlock w s) (movedBlocks s)\<rparr>)"

text \<open>The collision interval, lines 123 to 214: it exists only while playing.\<close>

definition collisionInterval :: "window \<Rightarrow> game \<Rightarrow> game" where
  "collisionInterval w s = (if \<not> playing s then s else collisionCallback w s)"

text \<open>\<^verbatim>\<open>handleBullets\<close>, lines 216 to 225; \<open>now\<close> is the value of \<^verbatim>\<open>Date.now()\<close>.\<close>

definition handleBullets :: "window \<Rightarrow> int \<Rightarrow> game \<Rightarrow> game" where
  "handleBullets w now s =
     (if \<not> gameStarted s \<or> gameOver s \<or> levelTransition s then s
      else
        (let newBullet =
               \<lparr> ident = now,
                 xpos = playerX s + PLAYER_WIDTH / 2 - BULLET_WIDTH,
                 ypos = screenHeight w - PLAYER_HEIGHT - BULLET_HEIGHT * 2 \<rparr>
         in s\<lparr>bullets := bullets s @ [newBullet]\<rparr>))"

text \<open>\<^verbatim>\<open>resetGame\<close>, lines 227 to 237.\<close>

definition resetGame :: "window \<Rightarrow> game \<Rightarrow> game" where
  "resetGame w s =
     s\<lparr>playerX := (screenWidth w - PLAYER_WIDTH) / 2,
       bullets := [],
       fallingBlocks := [],
       gameOver := False,
       score := 0,
       level := 1,
       levelTransition := False,
       countdown := 10,
       gameStarted := True\<rparr>"

section \<open>Events, rendering and effects\<close>

text \<open>
  One event is one firing of a timer, one sensor sample or one press. The screen rendered
  by lines 239 to 304 decides what a press can reach: the start or restart button exists on
  the start screen (\<open>\<not> gameStarted\<close>) and on the game-over screen (shown when
  \<open>\<not> levelTransition\<close> and \<open>gameOver\<close>); the play field, whose press calls
  \<^verbatim>\<open>handleBullets\<close>, is drawn only when none of the three other screens is.
\<close>

datatype event =
    Tilt real
  | BulletTick
  | SpawnTick int real
  | CountdownTick
  | CollisionTick
  | PressButton
  | PressField int

definition buttonShown :: "game \<Rightarrow> bool" where
  "buttonShown s \<longleftrightarrow> \<not> gameStarted s \<or> (\<not> levelTransition s \<and> gameOver s)"

definition fieldShown :: "game \<Rightarrow> bool" where
  "fieldShown s \<longleftrightarrow> \<not> (\<not> gameStarted s) \<and> \<not> levelTransition s \<and> \<not> gameOver s"

text \<open>The screen that lines 239 to 304 render, in the order of the tests there.\<close>

datatype screen = StartScreen | TransitionScreen | GameOverScreen | PlayField

definition screenShown :: "game \<Rightarrow> screen" where
  "screenShown s =
     (if \<not> gameStarted s then StartScreen
      else if levelTransition s then TransitionScreen
      else if gameOver s then GameOverScreen
      else PlayField)"

fun handle :: "window \<Rightarrow> event \<Rightarrow> game \<Rightarrow> game" where
  "handle w (Tilt t) s = accelerometerListener w t s"
| "handle w BulletTick s = bulletInterval s"
| "handle w (SpawnTick now rnd) s = spawnBlock w now rnd s"
| "handle w CountdownTick s = countdownInterval s"
| "handle w CollisionTick s = collisionInterval w s"
| "handle w PressButton s = (if buttonShown s then resetGame w s else s)"
| "handle w (PressField now) s = (if fieldShown s then handleBullets w now s else s)"

text \<open>
  The effects that run after the render following an event: the ref is brought in line with
  the bullets (lines 93 to 95), and the countdown effect (lines 98 to 102), whose dependency
  is \<open>levelTransition\<close>, sets the countdown to 10 when it runs with the flag off.
\<close>

definition runEffects :: "game \<Rightarrow> game \<Rightarrow> game" where
  "runEffects prev s =
     (let s1 = s\<lparr>bulletsRef := bullets s\<rparr>
      in if levelTransition prev \<noteq> levelTransition s \<and> \<not> levelTransition s
         then s1\<lparr>countdown := 10\<rparr>
         else s1)"

definition step :: "window \<Rightarrow> event \<Rightarrow> game \<Rightarrow> game" where
  "step w e s = runEffects s (handle w e s)"

definition run :: "window \<Rightarrow> event list \<Rightarrow> game \<Rightarrow> game" where
  "run w evs s = fold (step w) evs s"

section \<open>Bookkeeping of the hit counter\<close>

text \<open>The counter \<open>blocksHit\<close> is the number of ids in the set \<open>hitBlockIds\<close>.\<close>

definition counted :: "int set \<times> int \<Rightarrow> bool" where
  "counted acc \<longleftrightarrow> finite (fst acc) \<and> snd acc = int (card (fst acc))"

section \<open>Invariants, sessions and clock readings\<close>

text \<open>
  Predicates on states that every event preserves: the range of the countdown, the relation
  between level, score and the transition flag, the ref holding the bullets, and the player
  staying on the screen.
\<close>

definition countdown_inv :: "game \<Rightarrow> bool" where
  "countdown_inv s \<longleftrightarrow>
     (if levelTransition s then 1 \<le> countdown s \<and> countdown s \<le> 10 else countdown s = 10)"

definition level_inv :: "game \<Rightarrow> bool" where
  "level_inv s \<longleftrightarrow>
     (if levelTransition s then level s = 1 \<and> gameStarted s
      else if level s = 1 then score s < 50 else level s = 2)"

definition ref_inv :: "game \<Rightarrow> bool" where
  "ref_inv s \<longleftrightarrow> bulletsRef s = bullets s"

definition player_inv :: "window \<Rightarrow> game \<Rightarrow> bool" where
  "player_inv w s \<longleftrightarrow> 0 \<le> playerX s \<and> playerX s \<le> screenWidth w - PLAYER_WIDTH"

fun transitionsStarted :: "window \<Rightarrow> event list \<Rightarrow> game \<Rightarrow> nat" where
  "transitionsStarted w [] s = 0"
| "transitionsStarted w (e # evs) s =
     (if \<not> levelTransition s \<and> levelTransition (step w e s) then 1 else 0)
       + transitionsStarted w evs (step w e s)"

definition phase :: "game \<Rightarrow> nat" where
  "phase s = (if levelTransition s then 1 else if level s = 1 then 0 else 2)"

text \<open>
  The state in which the last countdown tick (lines 107 to 115) leaves the game, once the ref
  has followed the bullets.
\<close>

definition completed :: "game \<Rightarrow> game" where
  "completed s = s\<lparr>level := 2, levelTransition := False, fallingBlocks := [], bullets := [],
                   bulletsRef := [], countdown := 10\<rparr>"










definition uniqueIn :: "game \<Rightarrow> bool" where
  "uniqueIn s \<longleftrightarrow> distinct (map ident (bullets s)) \<and> distinct (map ident (fallingBlocks s))"

fun uniqueAlong :: "window \<Rightarrow> event list \<Rightarrow> game \<Rightarrow> bool" where
  "uniqueAlong w [] s = uniqueIn s"
| "uniqueAlong w (e # evs) s = (uniqueIn s \<and> uniqueAlong w evs (step w e s))"

section \<open>Concrete windows and states\<close>

text \<open>
  A 400 by 800 window, so that \<open>playerTopY = 730\<close>, and two states of a running game at
  level 1. In \<open>demo_state\<close> the bullet overlaps block 2, and the bottom edge of block 1 is
  two pixels above the player's top edge, so that this tick's motion takes it past. In \<open>near_miss_state\<close> the bullet's top edge touches the
  bottom edge of the block, so that they overlap only once the block has moved down.
\<close>

definition demo_window :: window where
  "demo_window = \<lparr> screenWidth = 400, screenHeight = 800 \<rparr>"

definition demo_state :: game where
  "demo_state =
     \<lparr> playerX = 200,
       bullets = [\<lparr> ident = 3, xpos = 215, ypos = 605 \<rparr>],
       fallingBlocks = [\<lparr> ident = 1, xpos = 0, ypos = 688 \<rparr>,
                        \<lparr> ident = 2, xpos = 200, ypos = 568 \<rparr>],
       gameOver = False,
       score = 0,
       gameStarted = True,
       level = 1,
       levelTransition = False,
       countdown = 10,
       bulletsRef = [\<lparr> ident = 3, xpos = 215, ypos = 605 \<rparr>] \<rparr>"

definition near_miss_state :: game where
  "near_miss_state =
     \<lparr> playerX = 95,
       bullets = [\<lparr> ident = 2, xpos = 110, ypos = 140 \<rparr>],
       fallingBlocks = [\<lparr> ident = 1, xpos = 100, ypos = 100 \<rparr>],
       gameOver = False,
       score = 0,
       gameStarted = True,
       level = 1,
       levelTransition = False,
       countdown = 10,
       bulletsRef = [\<lparr> ident = 2, xpos = 110, ypos = 140 \<rparr>] \<rparr>"

text \<open>
  Three runs from the start screen in the 400 by 800 window. \<open>near_miss_trace\<close> ends in
  \<open>near_miss_state\<close>: three tilt samples move the player to x = 95, a block is spawned at
  x = 100 and falls for fifty ticks, then a bullet is fired and flies for thirty-eight ticks.
  In \<open>level_up_trace\<close> five blocks
  are spawned, fall for forty ticks, and one bullet that has flown for forty-one ticks
  overlaps all five at the last collision tick. \<open>corner_trace\<close> is the same run with one more
  block, spawned 206 ticks earlier at the left edge, which no bullet touches and which
  arrives at the player's top edge at that same last tick.
\<close>

definition near_miss_trace :: "event list" where
  "near_miss_trace =
     [PressButton, Tilt (- 1), Tilt (- 1), Tilt (- 2 / 3), SpawnTick 1 (2 / 7)]
     @ replicate 50 CollisionTick @ [PressField 2] @ replicate 38 BulletTick"

definition level_up_trace :: "event list" where
  "level_up_trace =
     [PressButton,
      SpawnTick 3000 (1/2), SpawnTick 5000 (1/2), SpawnTick 7000 (1/2),
      SpawnTick 9000 (1/2), SpawnTick 11000 (1/2)] @ replicate 40 CollisionTick @
     [PressField 11500] @ replicate 41 BulletTick @ [CollisionTick]"

definition corner_trace :: "event list" where
  "corner_trace =
     [PressButton, SpawnTick 1000 0] @ replicate 206 CollisionTick @
     [SpawnTick 3000 (1/2), SpawnTick 5000 (1/2), SpawnTick 7000 (1/2),
      SpawnTick 9000 (1/2), SpawnTick 11000 (1/2)] @ replicate 40 CollisionTick @
     [PressField 11500] @ replicate 41 BulletTick @ [CollisionTick]"

section \<open>Facts about the hit detection and the collision callback\<close>

lemmas consts_defs =
  PLAYER_WIDTH_def PLAYER_HEIGHT_def BULLET_WIDTH_def BULLET_HEIGHT_def
  BLOCK_WIDTH_def BLOCK_HEIGHT_def

lemmas tick_defs =
  collisionInterval_def collisionCallback_def scoreHits_def consumeBullets_def
  shouldGameOver_def keepBlock_def movedBlocks_def fallSpeed_def playerTopY_def
  hitBlockIds_def blocksHit_def detectHits_def hitCheck_def collides_def isColliding_def
  playing_def consts_defs

lemma hitCheck_fst:
  "fst (hitCheck bu b acc) = (if collides bu b then insert (ident b) (fst acc) else fst acc)"
  by (auto simp: hitCheck_def)

lemma fold_hitCheck_fst:
  "fst (fold (\<lambda>block. hitCheck bu block) blocks acc) =
     fst acc \<union> ident ` {b \<in> set blocks. collides bu b}"
  by (induction blocks arbitrary: acc) (auto simp: hitCheck_fst)

lemma fold_bullets_fst:
  "fst (fold (\<lambda>bullet. fold (\<lambda>block. hitCheck bullet block) blocks) bus acc) =
     fst acc \<union> ident ` {b \<in> set blocks. \<exists>bu \<in> set bus. collides bu b}"
  by (induction bus arbitrary: acc) (auto simp: fold_hitCheck_fst)

lemma hitCheck_counted: "counted acc \<Longrightarrow> counted (hitCheck bu b acc)"
  by (auto simp: hitCheck_def counted_def)

lemma fold_hitCheck_counted:
  "counted acc \<Longrightarrow> counted (fold (\<lambda>block. hitCheck bu block) blocks acc)"
  by (induction blocks arbitrary: acc) (auto simp: hitCheck_counted)

lemma fold_bullets_counted:
  "counted acc \<Longrightarrow>
   counted (fold (\<lambda>bullet. fold (\<lambda>block. hitCheck bullet block) blocks) bus acc)"
  by (induction bus arbitrary: acc) (auto simp: fold_hitCheck_counted)

lemma hitBlockIds_eq:
  "hitBlockIds s =
     ident ` {b \<in> set (fallingBlocks s). \<exists>bu \<in> set (bulletsRef s). collides bu b}"
  by (simp add: hitBlockIds_def detectHits_def fold_bullets_fst)

lemma blocksHit_eq: "blocksHit s = int (card (hitBlockIds s))"
  using fold_bullets_counted [of "({}, 0)" "fallingBlocks s" "bulletsRef s"]
  by (simp add: blocksHit_def hitBlockIds_def detectHits_def counted_def)

lemma finite_hitBlockIds: "finite (hitBlockIds s)"
  by (simp add: hitBlockIds_eq)

lemma hit_id_iff:
  "ident b \<in> hitBlockIds s \<longleftrightarrow>
     (\<exists>b' \<in> set (fallingBlocks s). ident b' = ident b \<and> (\<exists>bu \<in> set (bulletsRef s). collides bu b'))"
proof
  assume "ident b \<in> hitBlockIds s"
  then show "\<exists>b' \<in> set (fallingBlocks s). ident b' = ident b
      \<and> (\<exists>bu \<in> set (bulletsRef s). collides bu b')"
    by (auto simp: hitBlockIds_eq)
next
  assume "\<exists>b' \<in> set (fallingBlocks s). ident b' = ident b
      \<and> (\<exists>bu \<in> set (bulletsRef s). collides bu b')"
  then obtain b' where b': "b' \<in> set (fallingBlocks s)" "ident b' = ident b"
      "\<exists>bu \<in> set (bulletsRef s). collides bu b'"
    by blast
  then have "b' \<in> {b \<in> set (fallingBlocks s). \<exists>bu \<in> set (bulletsRef s). collides bu b}"
    by simp
  then have "ident b' \<in> hitBlockIds s"
    unfolding hitBlockIds_eq by (rule imageI)
  with b'(2) show "ident b \<in> hitBlockIds s" by simp
qed

lemma shouldGameOver_fold:
  "fold (\<lambda>block flag.
         if ident block \<notin> H
         then (let blockBottom = ypos block + BLOCK_HEIGHT
               in if blockBottom \<ge> t then True else flag)
         else flag) bs flag0
   \<longleftrightarrow> flag0 \<or> (\<exists>b \<in> set bs. ident b \<notin> H \<and> ypos b + BLOCK_HEIGHT \<ge> t)"
  by (induction bs arbitrary: flag0) (auto simp: Let_def)

lemma shouldGameOver_iff:
  "shouldGameOver w s \<longleftrightarrow>
     (\<exists>b \<in> set (movedBlocks s). ident b \<notin> hitBlockIds s \<and> ypos b + BLOCK_HEIGHT \<ge> playerTopY w)"
  by (simp add: shouldGameOver_def shouldGameOver_fold)

lemma keepBlock_iff:
  "keepBlock w s b \<longleftrightarrow>
     ident b \<notin> hitBlockIds s \<and> ypos b + BLOCK_HEIGHT < playerTopY w \<and> ypos b < screenHeight w + 50"
  by (auto simp: keepBlock_def Let_def)

lemma collisionCallback_gameOver:
  "gameOver (collisionCallback w s) \<longleftrightarrow> shouldGameOver w s \<or> gameOver s"
  by (simp add: collisionCallback_def scoreHits_def Let_def)

lemma collisionCallback_fallingBlocks:
  "fallingBlocks (collisionCallback w s) = filter (keepBlock w s) (movedBlocks s)"
  by (simp add: collisionCallback_def Let_def)

lemma collisionCallback_score:
  "score (collisionCallback w s) = score s + blocksHit s * 10"
  using blocksHit_eq [of s]
  by (simp add: collisionCallback_def scoreHits_def Let_def)

lemma collisionCallback_bullets:
  "bullets (collisionCallback w s) = (if blocksHit s > 0 then consumeBullets s else bullets s)"
  by (simp add: collisionCallback_def scoreHits_def Let_def)

lemma consumeBullets_none: "blocksHit s = 0 \<Longrightarrow> consumeBullets s = bullets s"
proof -
  assume "blocksHit s = 0"
  then have "hitBlockIds s = {}"
    using blocksHit_eq [of s] finite_hitBlockIds [of s] by simp
  then show ?thesis by (simp add: consumeBullets_def list_ex_iff)
qed

lemma blocksHit_nonneg: "0 \<le> blocksHit s"
  by (simp add: blocksHit_eq)

lemma collisionCallback_bullets_consumed:
  "bullets (collisionCallback w s) = consumeBullets s"
  using consumeBullets_none [of s] blocksHit_nonneg [of s]
  by (cases "blocksHit s > 0") (simp_all add: collisionCallback_bullets)

lemma card_ident_image:
  assumes "distinct (map ident bs)"
  shows "card (ident ` {b \<in> set bs. P b}) = length (filter P bs)"
proof -
  have inj: "inj_on ident (set bs)" and d: "distinct bs"
    using assms by (simp_all add: distinct_map)
  have "inj_on ident {b \<in> set bs. P b}"
    by (rule inj_on_subset [OF inj]) auto
  then have "card (ident ` {b \<in> set bs. P b}) = card {b \<in> set bs. P b}"
    by (rule card_image)
  moreover have "card (set (filter P bs)) = length (filter P bs)"
    by (rule distinct_card) (simp add: d)
  ultimately show ?thesis by simp
qed

section \<open>Facts about events, runs and invariants\<close>

lemmas handler_defs =
  accelerometerListener_def bulletInterval_def spawnBlock_def countdownInterval_def
  handleBullets_def resetGame_def buttonShown_def fieldShown_def

lemma run_Nil: "run w [] s = s"
  by (simp add: run_def)

lemma run_Cons: "run w (e # evs) s = run w evs (step w e s)"
  by (simp add: run_def)

lemma run_append: "run w (xs @ ys) s = run w ys (run w xs s)"
  by (simp add: run_def)

lemma run_snoc: "run w (evs @ [e]) s = step w e (run w evs s)"
  by (simp add: run_def)

text \<open>What the collision callback does to the flags, the level and the countdown.\<close>

lemma collisionCallback_level: "level (collisionCallback w s) = level s"
  by (simp add: collisionCallback_def scoreHits_def Let_def)

lemma collisionCallback_gameStarted: "gameStarted (collisionCallback w s) = gameStarted s"
  by (simp add: collisionCallback_def scoreHits_def Let_def)

lemma collisionCallback_playerX: "playerX (collisionCallback w s) = playerX s"
  by (simp add: collisionCallback_def scoreHits_def Let_def)

lemma collisionCallback_levelTransition:
  "levelTransition (collisionCallback w s) \<longleftrightarrow>
     levelTransition s \<or> (0 < blocksHit s \<and> 50 \<le> score s + blocksHit s * 10 \<and> level s = 1)"
  by (auto simp: collisionCallback_def scoreHits_def Let_def)

lemma collisionCallback_countdown:
  "countdown (collisionCallback w s) =
     (if 0 < blocksHit s \<and> 50 \<le> score s + blocksHit s * 10 \<and> level s = 1 \<and> \<not> levelTransition s
      then 10 else countdown s)"
  by (simp add: collisionCallback_def scoreHits_def Let_def)

text \<open>The effects change only the ref and the countdown.\<close>

lemma runEffects_fields:
  "levelTransition (runEffects p s) = levelTransition s"
  "level (runEffects p s) = level s"
  "score (runEffects p s) = score s"
  "gameStarted (runEffects p s) = gameStarted s"
  "gameOver (runEffects p s) = gameOver s"
  "playerX (runEffects p s) = playerX s"
  "bullets (runEffects p s) = bullets s"
  "fallingBlocks (runEffects p s) = fallingBlocks s"
  "bulletsRef (runEffects p s) = bullets s"
  by (simp_all add: runEffects_def Let_def)

lemma runEffects_countdown:
  "countdown (runEffects p s) =
     (if levelTransition p \<and> \<not> levelTransition s then 10 else countdown s)"
  by (auto simp: runEffects_def Let_def)

lemma ref_inv_step: "ref_inv (step w e s)"
  by (simp add: ref_inv_def step_def runEffects_fields)

lemma countdown_inv_step: "countdown_inv s \<Longrightarrow> countdown_inv (step w e s)"
  by (cases e)
    (auto simp: countdown_inv_def step_def runEffects_fields runEffects_countdown handler_defs
       collisionInterval_def collisionCallback_levelTransition collisionCallback_countdown
       Let_def split: if_splits)

lemma level_inv_step: "level_inv s \<Longrightarrow> level_inv (step w e s)"
  by (cases e)
    (auto simp: level_inv_def step_def runEffects_fields handler_defs playing_def
       collisionInterval_def collisionCallback_levelTransition collisionCallback_level
       collisionCallback_gameStarted collisionCallback_score
       Let_def split: if_splits)

lemma tiltUpdate_range:
  "PLAYER_WIDTH \<le> screenWidth w \<Longrightarrow>
   0 \<le> tiltUpdate w t px \<and> tiltUpdate w t px \<le> screenWidth w - PLAYER_WIDTH"
  by (simp add: tiltUpdate_def Let_def)

lemma player_inv_step:
  "PLAYER_WIDTH \<le> screenWidth w \<Longrightarrow> player_inv w s \<Longrightarrow> player_inv w (step w e s)"
  by (cases e)
    (auto simp: player_inv_def step_def runEffects_fields handler_defs tiltUpdate_range
       collisionInterval_def collisionCallback_playerX Let_def)

lemma initial_invs:
  "countdown_inv (initial w)" "level_inv (initial w)" "ref_inv (initial w)"
  by (simp_all add: countdown_inv_def level_inv_def ref_inv_def initial_def)

lemma initial_player_inv: "PLAYER_WIDTH \<le> screenWidth w \<Longrightarrow> player_inv w (initial w)"
  by (simp add: player_inv_def initial_def)

lemma countdown_inv_run: "countdown_inv s \<Longrightarrow> countdown_inv (run w evs s)"
  by (induction evs arbitrary: s) (simp_all add: run_Nil run_Cons countdown_inv_step)

lemma level_inv_run: "level_inv s \<Longrightarrow> level_inv (run w evs s)"
  by (induction evs arbitrary: s) (simp_all add: run_Nil run_Cons level_inv_step)

lemma ref_inv_run: "ref_inv s \<Longrightarrow> ref_inv (run w evs s)"
  by (induction evs arbitrary: s) (simp_all add: run_Nil run_Cons ref_inv_step)

lemma player_inv_run:
  "PLAYER_WIDTH \<le> screenWidth w \<Longrightarrow> player_inv w s \<Longrightarrow> player_inv w (run w evs s)"
  by (induction evs arbitrary: s) (simp_all add: run_Nil run_Cons player_inv_step)

lemmas eval_defs =
  run_def step_def runEffects_def handler_defs tiltUpdate_def initial_def demo_window_def
  tick_defs eval_nat_numeral

lemma level_up_state:
  "run demo_window level_up_trace (initial demo_window) =
     \<lparr> playerX = 175, bullets = [], fallingBlocks = [], gameOver = False, score = 50,
       gameStarted = True, level = 1, levelTransition = True, countdown = 10,
       bulletsRef = [] \<rparr>"
  by (simp add: level_up_trace_def eval_defs)

lemma step_levelTransition_start:
  "\<not> levelTransition s \<and> levelTransition (step w e s) \<longleftrightarrow>
     e = CollisionTick \<and> playing s \<and> 0 < blocksHit s \<and> 50 \<le> score s + blocksHit s * 10
     \<and> level s = 1"
  by (cases e)
    (auto simp: step_def runEffects_fields handler_defs playing_def collisionInterval_def
       collisionCallback_levelTransition Let_def)

lemma step_score:
  "score (step w e s) =
     (if e = CollisionTick \<and> playing s then score s + blocksHit s * 10
      else if e = PressButton \<and> buttonShown s then 0 else score s)"
  by (cases e)
    (auto simp: step_def runEffects_fields handler_defs collisionInterval_def
       collisionCallback_score Let_def)

lemma step_trigger_iff:
  assumes "level_inv s"
  shows "\<not> levelTransition s \<and> levelTransition (step w e s) \<longleftrightarrow>
           level s = 1 \<and> \<not> levelTransition s \<and> score s < 50 \<and> 50 \<le> score (step w e s)"
proof
  assume t: "\<not> levelTransition s \<and> levelTransition (step w e s)"
  then have e: "e = CollisionTick" "playing s" "0 < blocksHit s"
      "50 \<le> score s + blocksHit s * 10" "level s = 1"
    using step_levelTransition_start [of s w e] by blast+
  moreover have "score s < 50"
    using assms t e by (simp add: level_inv_def)
  ultimately show "level s = 1 \<and> \<not> levelTransition s \<and> score s < 50 \<and> 50 \<le> score (step w e s)"
    using t by (simp add: step_score)
next
  assume a: "level s = 1 \<and> \<not> levelTransition s \<and> score s < 50 \<and> 50 \<le> score (step w e s)"
  then have "e = CollisionTick \<and> playing s"
    by (auto simp: step_score split: if_splits)
  moreover from this a have "0 < blocksHit s" "50 \<le> score s + blocksHit s * 10"
    by (auto simp: step_score)
  ultimately show "\<not> levelTransition s \<and> levelTransition (step w e s)"
    using a step_levelTransition_start [of s w e] by blast
qed

lemma step_trigger_countdown:
  "\<not> levelTransition s \<and> levelTransition (step w e s) \<Longrightarrow>
   e = CollisionTick \<and> countdown (step w e s) = 10"
  by (cases e)
    (auto simp: step_def runEffects_fields runEffects_countdown handler_defs playing_def
       collisionInterval_def collisionCallback_levelTransition collisionCallback_countdown
       Let_def split: if_splits)

lemma countdown_step_decrement:
  "ref_inv s \<Longrightarrow> levelTransition s \<Longrightarrow> 1 < countdown s \<Longrightarrow>
   step w CountdownTick s = s\<lparr>countdown := countdown s - 1\<rparr>"
  by (simp add: step_def runEffects_def countdownInterval_def ref_inv_def Let_def)

lemma countdown_step_complete:
  "levelTransition s \<Longrightarrow> countdown s \<le> 1 \<Longrightarrow> step w CountdownTick s = completed s"
  by (simp add: step_def runEffects_def countdownInterval_def Let_def completed_def)

lemma completed_decrement [simp]: "completed (s\<lparr>countdown := c\<rparr>) = completed s"
  by (simp add: completed_def)

lemma countdown_run_complete:
  "ref_inv s \<Longrightarrow> levelTransition s \<Longrightarrow> countdown s = int (Suc n) \<Longrightarrow>
   run w (replicate (Suc n) CountdownTick) s = completed s"
proof (induction n arbitrary: s)
  case 0
  then show ?case by (simp add: run_Cons run_Nil countdown_step_complete)
next
  case (Suc n)
  let ?s' = "s\<lparr>countdown := countdown s - 1\<rparr>"
  have st: "step w CountdownTick s = ?s'"
    using Suc.prems by (simp add: countdown_step_decrement)
  have "run w (replicate (Suc n) CountdownTick) ?s' = completed ?s'"
    using Suc.prems by (intro Suc.IH) (simp_all add: ref_inv_def)
  then show ?case
    by (simp add: run_Cons st)
qed

lemma suspended_during_transition:
  "ref_inv s \<Longrightarrow> level_inv s \<Longrightarrow> levelTransition s \<Longrightarrow> e \<noteq> CountdownTick \<Longrightarrow>
   step w e s = s"
  by (cases e)
    (auto simp: step_def runEffects_def handler_defs playing_def collisionInterval_def
       ref_inv_def level_inv_def Let_def)

lemma phase_step:
  "e \<noteq> PressButton \<Longrightarrow> phase s \<le> phase (step w e s)"
  by (cases e)
    (auto simp: phase_def step_def runEffects_fields handler_defs playing_def
       collisionInterval_def collisionCallback_levelTransition collisionCallback_level
       Let_def)

lemma phase_trigger:
  "\<not> levelTransition s \<and> levelTransition (step w e s) \<Longrightarrow>
   phase s = 0 \<and> phase (step w e s) = 1"
  using step_levelTransition_start [of s w e] by (simp add: phase_def)

lemma transitionsStarted_phase:
  "PressButton \<notin> set evs \<Longrightarrow>
   transitionsStarted w evs s \<le> (if phase s = 0 then 1 else 0)"
proof (induction evs arbitrary: s)
  case Nil
  then show ?case by simp
next
  case (Cons e evs)
  then have e: "e \<noteq> PressButton" and evs: "PressButton \<notin> set evs" by auto
  have IH: "transitionsStarted w evs (step w e s) \<le> (if phase (step w e s) = 0 then 1 else 0)"
    using evs by (rule Cons.IH)
  show ?case
  proof (cases "\<not> levelTransition s \<and> levelTransition (step w e s)")
    case True
    then have "phase s = 0 \<and> phase (step w e s) = 1" by (rule phase_trigger)
    with IH True show ?thesis by simp
  next
    case False
    have "phase s \<le> phase (step w e s)" using e by (rule phase_step)
    with IH False show ?thesis by (auto split: if_splits)
  qed
qed

lemma no_retrigger:
  "level s \<noteq> 1 \<Longrightarrow> \<not> levelTransition s \<Longrightarrow> \<not> levelTransition (step w e s)"
  by (cases e)
    (auto simp: step_def runEffects_fields handler_defs playing_def
       collisionInterval_def collisionCallback_levelTransition Let_def)

section \<open>Facts about entity ids\<close>




















lemma uniqueAlong_run: "uniqueAlong w evs s \<Longrightarrow> uniqueIn (run w evs s)"
  by (induction evs arbitrary: s) (simp_all add: run_Nil run_Cons)







section \<open>Facts about the fire handler\<close>

lemma handleBullets_rejected:
  "\<not> gameStarted s \<or> gameOver s \<or> levelTransition s \<Longrightarrow> handleBullets w now s = s"
  by (simp add: handleBullets_def)

lemma handleBullets_accepted:
  "playing s \<Longrightarrow>
   handleBullets w now s =
     s\<lparr>bullets := bullets s @
         [\<lparr> ident = now, xpos = playerX s + 15, ypos = playerTopY w - BULLET_HEIGHT \<rparr>]\<rparr>"
  by (simp add: handleBullets_def playing_def playerTopY_def consts_defs Let_def)

lemma handleBullets_offset:
  "playing s \<Longrightarrow>
   xpos (last (bullets (handleBullets w now s))) + BULLET_WIDTH / 2
     = playerX s + PLAYER_WIDTH / 2 - 5"
  by (simp add: handleBullets_accepted consts_defs)

section \<open>The collision tick\<close>

text \<open>
  C1, as stated, fails: at the last tick of \<open>corner_trace\<close> the block with id 1000 is not hit
  and its bottom edge, after the motion, is at 731, past the player's top edge at 730; the
  tick sets the game-over flag, but it also starts the level transition, and the screen
  rendered is the transition screen, not the game-over screen.
\<close>

theorem arrival_with_level_up_shows_transition:
  "playing (run demo_window (butlast corner_trace) (initial demo_window))
   \<and> \<lparr> ident = 1000, xpos = 0, ypos = 691 \<rparr>
        \<in> set (movedBlocks (run demo_window (butlast corner_trace) (initial demo_window)))
   \<and> 1000 \<notin> hitBlockIds (run demo_window (butlast corner_trace) (initial demo_window))
   \<and> 691 + 40 \<ge> screenHeight demo_window - 20 - PLAYER_HEIGHT
   \<and> gameOver (collisionInterval demo_window
        (run demo_window (butlast corner_trace) (initial demo_window)))
   \<and> levelTransition (collisionInterval demo_window
        (run demo_window (butlast corner_trace) (initial demo_window)))
   \<and> screenShown (collisionInterval demo_window
        (run demo_window (butlast corner_trace) (initial demo_window))) = TransitionScreen"
proof -
  have b: "run demo_window (butlast corner_trace) (initial demo_window) =
     \<lparr> playerX = 175, bullets = [\<lparr>ident = 11500, xpos = 190, ypos = 95\<rparr>],
       fallingBlocks =
         [\<lparr>ident = 1000, xpos = 0, ypos = 688\<rparr>,
          \<lparr>ident = 3000, xpos = 175, ypos = 70\<rparr>, \<lparr>ident = 5000, xpos = 175, ypos = 70\<rparr>,
          \<lparr>ident = 7000, xpos = 175, ypos = 70\<rparr>, \<lparr>ident = 9000, xpos = 175, ypos = 70\<rparr>,
          \<lparr>ident = 11000, xpos = 175, ypos = 70\<rparr>],
       gameOver = False, score = 0, gameStarted = True, level = 1,
       levelTransition = False, countdown = 10,
       bulletsRef = [\<lparr>ident = 11500, xpos = 190, ypos = 95\<rparr>] \<rparr>"
    by (simp add: corner_trace_def eval_defs)
  show ?thesis
    unfolding b by (simp add: demo_window_def tick_defs screenShown_def)
qed

text \<open>
  C1, amended. On a collision tick of a game that is playing, the game-over flag is set
  exactly when some block whose id no bullet hit this tick has its bottom edge, after this
  tick's motion, at or below \<open>screenHeight - 20 - PLAYER_HEIGHT\<close>; the ids hit are those of
  the blocks that a bullet of the ref overlaps. The tick starts the level transition exactly
  when it hits some block, brings the score to at least 50 and the level is 1; the screen
  then rendered is the transition screen if the transition started, else the game-over
  screen if the flag was set, else the play field. Every moved block that was hit, or whose
  bottom edge reached that line, is absent from the new block list, which is exactly the
  moved list filtered by the three tests of lines 195 to 209; the moved list is the previous
  list with the fall speed of the level, 3 or 6, added to every y.
\<close>

theorem collision_tick_game_over_and_removal:
  assumes "playing s"
  shows "(gameOver (collisionInterval w s) \<longleftrightarrow>
            (\<exists>b \<in> set (movedBlocks s).
               ident b \<notin> hitBlockIds s \<and>
               ypos b + 40 \<ge> screenHeight w - 20 - PLAYER_HEIGHT))
       \<and> hitBlockIds s =
           ident ` {b \<in> set (fallingBlocks s). \<exists>bu \<in> set (bulletsRef s). collides bu b}
       \<and> (levelTransition (collisionInterval w s) \<longleftrightarrow>
            hitBlockIds s \<noteq> {} \<and> 50 \<le> score s + 10 * int (card (hitBlockIds s))
            \<and> level s = 1)
       \<and> screenShown (collisionInterval w s) =
           (if levelTransition (collisionInterval w s) then TransitionScreen
            else if gameOver (collisionInterval w s) then GameOverScreen
            else PlayField)
       \<and> (\<forall>b \<in> set (movedBlocks s).
            ident b \<in> hitBlockIds s \<or> ypos b + 40 \<ge> screenHeight w - 20 - PLAYER_HEIGHT
            \<longrightarrow> b \<notin> set (fallingBlocks (collisionInterval w s)))
       \<and> fallingBlocks (collisionInterval w s) =
           filter (\<lambda>b. ident b \<notin> hitBlockIds s
                       \<and> ypos b + 40 < screenHeight w - 20 - PLAYER_HEIGHT
                       \<and> ypos b < screenHeight w + 50)
             (movedBlocks s)
       \<and> movedBlocks s = map (\<lambda>b. b\<lparr>ypos := ypos b + fallSpeed s\<rparr>) (fallingBlocks s)
       \<and> fallSpeed s = (if level s = 1 then 3 else 6)"
proof -
  have cb: "collisionInterval w s = collisionCallback w s"
    using assms by (simp add: collisionInterval_def)
  have g: "\<not> gameOver s" "\<not> levelTransition s" "gameStarted s"
    using assms by (simp_all add: playing_def)
  have keep: "keepBlock w s = (\<lambda>b. ident b \<notin> hitBlockIds s
                       \<and> ypos b + 40 < screenHeight w - 20 - PLAYER_HEIGHT
                       \<and> ypos b < screenHeight w + 50)"
    by (rule ext) (simp add: keepBlock_iff playerTopY_def BLOCK_HEIGHT_def)
  have 1: "gameOver (collisionInterval w s) \<longleftrightarrow>
            (\<exists>b \<in> set (movedBlocks s).
               ident b \<notin> hitBlockIds s \<and>
               ypos b + 40 \<ge> screenHeight w - 20 - PLAYER_HEIGHT)"
    using g by (simp add: cb collisionCallback_gameOver shouldGameOver_iff playerTopY_def
          BLOCK_HEIGHT_def)
  have 2: "hitBlockIds s =
           ident ` {b \<in> set (fallingBlocks s). \<exists>bu \<in> set (bulletsRef s). collides bu b}"
    by (rule hitBlockIds_eq)
  have pos: "0 < blocksHit s \<longleftrightarrow> hitBlockIds s \<noteq> {}"
    using finite_hitBlockIds [of s] by (simp add: blocksHit_eq card_gt_0_iff)
  have 3: "levelTransition (collisionInterval w s) \<longleftrightarrow>
            hitBlockIds s \<noteq> {} \<and> 50 \<le> score s + 10 * int (card (hitBlockIds s))
            \<and> level s = 1"
    using g pos by (simp add: cb collisionCallback_levelTransition blocksHit_eq mult.commute)
  have 4: "screenShown (collisionInterval w s) =
           (if levelTransition (collisionInterval w s) then TransitionScreen
            else if gameOver (collisionInterval w s) then GameOverScreen
            else PlayField)"
    using g by (simp add: screenShown_def cb collisionCallback_gameStarted)
  have 6: "fallingBlocks (collisionInterval w s) =
           filter (\<lambda>b. ident b \<notin> hitBlockIds s
                       \<and> ypos b + 40 < screenHeight w - 20 - PLAYER_HEIGHT
                       \<and> ypos b < screenHeight w + 50)
             (movedBlocks s)"
    by (simp add: cb collisionCallback_fallingBlocks keep)
  have 5: "\<forall>b \<in> set (movedBlocks s).
            ident b \<in> hitBlockIds s \<or> ypos b + 40 \<ge> screenHeight w - 20 - PLAYER_HEIGHT
            \<longrightarrow> b \<notin> set (fallingBlocks (collisionInterval w s))"
    unfolding 6 by auto
  have 7: "movedBlocks s = map (\<lambda>b. b\<lparr>ypos := ypos b + fallSpeed s\<rparr>) (fallingBlocks s)"
    by (simp add: movedBlocks_def)
  have 8: "fallSpeed s = (if level s = 1 then 3 else 6)"
    by (simp add: fallSpeed_def)
  show ?thesis by (intro conjI 1 2 3 4 5 6 7 8)
qed

theorem collision_tick_game_over_and_removal_witness:
  "playing demo_state
   \<and> gameOver (collisionInterval demo_window demo_state)
   \<and> \<not> levelTransition (collisionInterval demo_window demo_state)
   \<and> screenShown (collisionInterval demo_window demo_state) = GameOverScreen
   \<and> fallingBlocks (collisionInterval demo_window demo_state) = []"
proof -
  have p: "playing demo_state" by (simp add: demo_state_def playing_def)
  have h: "hitBlockIds demo_state = {2}"
    by (simp add: demo_state_def tick_defs)
  have m: "movedBlocks demo_state =
      [\<lparr> ident = 1, xpos = 0, ypos = 691 \<rparr>, \<lparr> ident = 2, xpos = 200, ypos = 571 \<rparr>]"
    by (simp add: demo_state_def movedBlocks_def fallSpeed_def)
  have sc: "score demo_state = 0" "level demo_state = 1" by (simp_all add: demo_state_def)
  have hh: "screenHeight demo_window = 800" by (simp add: demo_window_def)
  from collision_tick_game_over_and_removal [OF p, of demo_window] have
    go: "gameOver (collisionInterval demo_window demo_state)"
    and lt: "\<not> levelTransition (collisionInterval demo_window demo_state)"
    and fb: "fallingBlocks (collisionInterval demo_window demo_state) = []"
    unfolding h m sc hh by (simp_all add: PLAYER_HEIGHT_def)
  from collision_tick_game_over_and_removal [OF p, of demo_window] have
    "screenShown (collisionInterval demo_window demo_state) =
           (if levelTransition (collisionInterval demo_window demo_state) then TransitionScreen
            else if gameOver (collisionInterval demo_window demo_state) then GameOverScreen
            else PlayField)"
    by blast
  with go lt fb p show ?thesis by simp
qed



text \<open>
  C2. On a collision tick of a game that is playing, the score grows by ten times the number
  of ids in \<open>hitBlockIds\<close>, the ids of the blocks that some bullet of the ref overlaps; with
  pairwise distinct block ids this is the number of overlapped blocks, each counted once
  however many bullets overlap it. Every bullet that overlaps a block whose id was marked is
  absent from the new bullet list.
\<close>

theorem collision_tick_score_and_bullets:
  assumes "playing s"
  shows "score (collisionInterval w s) = score s + 10 * int (card (hitBlockIds s))
       \<and> hitBlockIds s =
           ident ` {b \<in> set (fallingBlocks s). \<exists>bu \<in> set (bulletsRef s). collides bu b}
       \<and> (distinct (map ident (fallingBlocks s)) \<longrightarrow>
            card (hitBlockIds s) =
              length (filter (\<lambda>b. \<exists>bu \<in> set (bulletsRef s). collides bu b) (fallingBlocks s)))
       \<and> (\<forall>bu \<in> set (bullets s).
            (\<exists>b \<in> set (fallingBlocks s). ident b \<in> hitBlockIds s \<and> collides bu b)
            \<longrightarrow> bu \<notin> set (bullets (collisionInterval w s)))
       \<and> bullets (collisionInterval w s) =
           filter (\<lambda>bu. \<not> (\<exists>b \<in> set (fallingBlocks s).
                              ident b \<in> hitBlockIds s \<and> collides bu b))
             (bullets s)"
proof -
  have cb: "collisionInterval w s = collisionCallback w s"
    using assms by (simp add: collisionInterval_def)
  have 1: "score (collisionInterval w s) = score s + 10 * int (card (hitBlockIds s))"
    by (simp add: cb collisionCallback_score blocksHit_eq)
  have 3: "distinct (map ident (fallingBlocks s)) \<longrightarrow>
            card (hitBlockIds s) =
              length (filter (\<lambda>b. \<exists>bu \<in> set (bulletsRef s). collides bu b) (fallingBlocks s))"
    by (simp add: hitBlockIds_eq card_ident_image)
  have 5: "bullets (collisionInterval w s) =
           filter (\<lambda>bu. \<not> (\<exists>b \<in> set (fallingBlocks s).
                              ident b \<in> hitBlockIds s \<and> collides bu b))
             (bullets s)"
    by (simp add: cb collisionCallback_bullets_consumed consumeBullets_def list_ex_iff)
  have 4: "\<forall>bu \<in> set (bullets s).
            (\<exists>b \<in> set (fallingBlocks s). ident b \<in> hitBlockIds s \<and> collides bu b)
            \<longrightarrow> bu \<notin> set (bullets (collisionInterval w s))"
    unfolding 5 by auto
  from 1 3 4 5 hitBlockIds_eq [of s] show ?thesis by blast
qed

theorem collision_tick_score_and_bullets_witness:
  "playing demo_state
   \<and> distinct (map ident (fallingBlocks demo_state))
   \<and> score (collisionInterval demo_window demo_state) = score demo_state + 10
   \<and> bullets (collisionInterval demo_window demo_state) = []"
proof -
  have p: "playing demo_state" by (simp add: demo_state_def playing_def)
  have h: "hitBlockIds demo_state = {2}"
    by (simp add: demo_state_def tick_defs)
  have d: "distinct (map ident (fallingBlocks demo_state))"
    by (simp add: demo_state_def)
  have c: "\<exists>b \<in> set (fallingBlocks demo_state). ident b \<in> {2::int} \<and>
             collides \<lparr> ident = 3, xpos = 215, ypos = 605 \<rparr> b"
    by (simp add: demo_state_def collides_def isColliding_def consts_defs)
  from collision_tick_score_and_bullets [OF p, of demo_window] p d c show ?thesis
    by (simp add: h) (simp add: demo_state_def)
qed

text \<open>
  C3, as stated, fails: in \<open>near_miss_state\<close>, reached by \<open>near_miss_trace\<close>, the bullet
  overlaps the block at the block's position after this tick's motion, yet the tick scores
  nothing and keeps both.
\<close>

theorem collision_tests_not_after_motion:
  "run demo_window near_miss_trace (initial demo_window) = near_miss_state
   \<and> playing near_miss_state
   \<and> bulletsRef near_miss_state = [\<lparr> ident = 2, xpos = 110, ypos = 140 \<rparr>]
   \<and> movedBlocks near_miss_state = [\<lparr> ident = 1, xpos = 100, ypos = 103 \<rparr>]
   \<and> collides \<lparr> ident = 2, xpos = 110, ypos = 140 \<rparr> \<lparr> ident = 1, xpos = 100, ypos = 103 \<rparr>
   \<and> score (collisionInterval demo_window near_miss_state) = score near_miss_state
   \<and> bullets (collisionInterval demo_window near_miss_state) = bullets near_miss_state
   \<and> fallingBlocks (collisionInterval demo_window near_miss_state) =
       [\<lparr> ident = 1, xpos = 100, ypos = 103 \<rparr>]"
proof -
  have "run demo_window near_miss_trace (initial demo_window) = near_miss_state"
    by (simp add: near_miss_trace_def near_miss_state_def eval_defs)
  then show ?thesis
    by (simp add: near_miss_state_def demo_window_def tick_defs)
qed

text \<open>
  C3, amended. A collision tick of a game that is playing is determined as follows, every
  overlap test reading a block at its position of the start of the tick, before this tick's
  downward motion. A block counts as hit when a block of its id is overlapped by a bullet of
  the ref. The score grows by ten times the number of ids hit; the bullets kept are those
  that overlap no hit block; the blocks kept are the blocks not hit, moved down by the fall
  speed, whose moved bottom edge is above \<open>screenHeight - 20 - PLAYER_HEIGHT\<close> and whose moved
  top edge is above \<open>screenHeight + 50\<close>; and the game-over flag is set exactly when a block not
  hit has its moved bottom edge at or below that line. The moved positions are read by
  these last tests alone.
\<close>

theorem collision_tests_use_start_positions:
  assumes "playing s"
  shows "score (collisionInterval w s) =
           score s + 10 * int (card (ident `
             {b \<in> set (fallingBlocks s). \<exists>bu \<in> set (bulletsRef s). collides bu b}))
       \<and> bullets (collisionInterval w s) =
           filter (\<lambda>bu. \<not> (\<exists>b \<in> set (fallingBlocks s).
                      (\<exists>b' \<in> set (fallingBlocks s). ident b' = ident b
                          \<and> (\<exists>bu' \<in> set (bulletsRef s). collides bu' b'))
                      \<and> collides bu b))
             (bullets s)
       \<and> fallingBlocks (collisionInterval w s) =
           map (\<lambda>b. b\<lparr>ypos := ypos b + fallSpeed s\<rparr>)
             (filter (\<lambda>b. \<not> (\<exists>b' \<in> set (fallingBlocks s). ident b' = ident b
                                  \<and> (\<exists>bu \<in> set (bulletsRef s). collides bu b'))
                         \<and> (ypos b + fallSpeed s) + 40 < screenHeight w - 20 - PLAYER_HEIGHT
                         \<and> ypos b + fallSpeed s < screenHeight w + 50)
                (fallingBlocks s))
       \<and> (gameOver (collisionInterval w s) \<longleftrightarrow>
            (\<exists>b \<in> set (fallingBlocks s).
               \<not> (\<exists>b' \<in> set (fallingBlocks s). ident b' = ident b
                      \<and> (\<exists>bu \<in> set (bulletsRef s). collides bu b'))
               \<and> (ypos b + fallSpeed s) + 40 \<ge> screenHeight w - 20 - PLAYER_HEIGHT))"
proof -
  have cb: "collisionInterval w s = collisionCallback w s"
    using assms by (simp add: collisionInterval_def)
  have g: "\<not> gameOver s" using assms by (simp add: playing_def)
  have 1: "score (collisionInterval w s) =
           score s + 10 * int (card (ident `
             {b \<in> set (fallingBlocks s). \<exists>bu \<in> set (bulletsRef s). collides bu b}))"
    by (simp add: cb collisionCallback_score blocksHit_eq hitBlockIds_eq)
  have 2: "bullets (collisionInterval w s) =
           filter (\<lambda>bu. \<not> (\<exists>b \<in> set (fallingBlocks s).
                      (\<exists>b' \<in> set (fallingBlocks s). ident b' = ident b
                          \<and> (\<exists>bu' \<in> set (bulletsRef s). collides bu' b'))
                      \<and> collides bu b))
             (bullets s)"
    by (simp add: cb collisionCallback_bullets_consumed consumeBullets_def list_ex_iff
          hit_id_iff)
  have 3: "fallingBlocks (collisionInterval w s) =
           map (\<lambda>b. b\<lparr>ypos := ypos b + fallSpeed s\<rparr>)
             (filter (\<lambda>b. \<not> (\<exists>b' \<in> set (fallingBlocks s). ident b' = ident b
                                  \<and> (\<exists>bu \<in> set (bulletsRef s). collides bu b'))
                         \<and> (ypos b + fallSpeed s) + 40 < screenHeight w - 20 - PLAYER_HEIGHT
                         \<and> ypos b + fallSpeed s < screenHeight w + 50)
                (fallingBlocks s))"
    by (simp add: cb collisionCallback_fallingBlocks movedBlocks_def filter_map comp_def
          keepBlock_iff hit_id_iff playerTopY_def BLOCK_HEIGHT_def)
  have 4: "gameOver (collisionInterval w s) \<longleftrightarrow>
            (\<exists>b \<in> set (fallingBlocks s).
               \<not> (\<exists>b' \<in> set (fallingBlocks s). ident b' = ident b
                      \<and> (\<exists>bu \<in> set (bulletsRef s). collides bu b'))
               \<and> (ypos b + fallSpeed s) + 40 \<ge> screenHeight w - 20 - PLAYER_HEIGHT)"
    using g by (simp add: cb collisionCallback_gameOver shouldGameOver_iff movedBlocks_def
          hit_id_iff playerTopY_def BLOCK_HEIGHT_def)
  show ?thesis by (intro conjI 1 2 3 4)
qed

theorem collision_tests_use_start_positions_witness:
  "playing demo_state
   \<and> score (collisionInterval demo_window demo_state) = 10
   \<and> bullets (collisionInterval demo_window demo_state) = []
   \<and> fallingBlocks (collisionInterval demo_window demo_state) = []
   \<and> gameOver (collisionInterval demo_window demo_state)"
proof -
  have p: "playing demo_state" by (simp add: demo_state_def playing_def)
  have f: "fallSpeed demo_state = 3" by (simp add: demo_state_def fallSpeed_def)
  have d: "fallingBlocks demo_state =
             [\<lparr> ident = 1, xpos = 0, ypos = 688 \<rparr>, \<lparr> ident = 2, xpos = 200, ypos = 568 \<rparr>]"
    "bulletsRef demo_state = [\<lparr> ident = 3, xpos = 215, ypos = 605 \<rparr>]"
    "bullets demo_state = [\<lparr> ident = 3, xpos = 215, ypos = 605 \<rparr>]"
    "score demo_state = 0"
    by (simp_all add: demo_state_def)
  have c: "\<not> collides \<lparr> ident = 3, xpos = 215, ypos = 605 \<rparr> \<lparr> ident = 1, xpos = 0, ypos = 688 \<rparr>"
    "collides \<lparr> ident = 3, xpos = 215, ypos = 605 \<rparr> \<lparr> ident = 2, xpos = 200, ypos = 568 \<rparr>"
    by (simp_all add: collides_def isColliding_def consts_defs)
  have e: "{b. (b = \<lparr> ident = 1, xpos = 0, ypos = 688 \<rparr> \<or> b = \<lparr> ident = 2, xpos = 200, ypos = 568 \<rparr>)
       \<and> collides \<lparr> ident = 3, xpos = 215, ypos = 605 \<rparr> b} = {\<lparr> ident = 2, xpos = 200, ypos = 568 \<rparr>}"
    using c by auto
  from collision_tests_use_start_positions [OF p, of demo_window] p show ?thesis
    unfolding f d by (simp add: c e demo_window_def PLAYER_HEIGHT_def)
qed



section \<open>Level transition\<close>

text \<open>
  C4, as stated, fails: the last tick of \<open>corner_trace\<close>, taken while playing with score 0,
  both brings the score to 50 and lets an unhit block arrive at the player, so the transition
  starts with the game-over flag set; after ten countdown ticks the level is 2 and the
  transition is over, but the game is not playing: it is over.
\<close>

theorem level_up_with_game_over_not_playing:
  "playing (run demo_window (butlast corner_trace) (initial demo_window))
   \<and> score (run demo_window (butlast corner_trace) (initial demo_window)) = 0
   \<and> score (run demo_window corner_trace (initial demo_window)) = 50
   \<and> gameOver (run demo_window corner_trace (initial demo_window))
   \<and> levelTransition (run demo_window corner_trace (initial demo_window))
   \<and> countdown (run demo_window corner_trace (initial demo_window)) = 10
   \<and> level (run demo_window (corner_trace @ replicate 10 CountdownTick) (initial demo_window)) = 2
   \<and> \<not> levelTransition
        (run demo_window (corner_trace @ replicate 10 CountdownTick) (initial demo_window))
   \<and> gameOver (run demo_window (corner_trace @ replicate 10 CountdownTick) (initial demo_window))
   \<and> \<not> playing (run demo_window (corner_trace @ replicate 10 CountdownTick) (initial demo_window))"
proof -
  have s: "run demo_window corner_trace (initial demo_window) =
     \<lparr> playerX = 175, bullets = [], fallingBlocks = [], gameOver = True, score = 50,
       gameStarted = True, level = 1, levelTransition = True, countdown = 10,
       bulletsRef = [] \<rparr>"
    by (simp add: corner_trace_def eval_defs)
  have b: "run demo_window (butlast corner_trace) (initial demo_window) =
     \<lparr> playerX = 175, bullets = [\<lparr>ident = 11500, xpos = 190, ypos = 95\<rparr>],
       fallingBlocks =
         [\<lparr>ident = 1000, xpos = 0, ypos = 688\<rparr>,
          \<lparr>ident = 3000, xpos = 175, ypos = 70\<rparr>, \<lparr>ident = 5000, xpos = 175, ypos = 70\<rparr>,
          \<lparr>ident = 7000, xpos = 175, ypos = 70\<rparr>, \<lparr>ident = 9000, xpos = 175, ypos = 70\<rparr>,
          \<lparr>ident = 11000, xpos = 175, ypos = 70\<rparr>],
       gameOver = False, score = 0, gameStarted = True, level = 1,
       levelTransition = False, countdown = 10,
       bulletsRef = [\<lparr>ident = 11500, xpos = 190, ypos = 95\<rparr>] \<rparr>"
    by (simp add: corner_trace_def eval_defs)
  show ?thesis
    by (simp add: run_append s b)
      (simp add: run_def step_def runEffects_def countdownInterval_def playing_def
         eval_nat_numeral)
qed

text \<open>
  C4, amended. In every state reached from the start screen: an event starts a level
  transition exactly when the level is 1, no transition is active, the score was below 50
  and the event brings it to at least 50; that event is a collision tick and leaves the
  countdown at 10. During the transition a countdown tick above 1 only decrements the
  countdown, every other event changes nothing, and the tick at 1 (so the tenth tick after
  the start) sets the level to 2, clears bullets and blocks, resets the countdown to 10 and
  ends the transition; the game is then playing exactly when the game-over flag was not
  raised by the tick that started the transition. Without a press of the start or restart
  button at most one transition starts, and at level 2 no event starts one.
\<close>

theorem level_transition_once:
  assumes "s = run w evs (initial w)"
  shows "((\<not> levelTransition s \<and> levelTransition (step w e s)) \<longleftrightarrow>
            (level s = 1 \<and> \<not> levelTransition s \<and> score s < 50 \<and> 50 \<le> score (step w e s)))
       \<and> (\<not> levelTransition s \<and> levelTransition (step w e s) \<longrightarrow>
            e = CollisionTick \<and> countdown (step w e s) = 10)
       \<and> (levelTransition s \<and> 1 < countdown s \<longrightarrow>
            step w CountdownTick s = s\<lparr>countdown := countdown s - 1\<rparr>)
       \<and> (levelTransition s \<and> countdown s = 1 \<longrightarrow>
            step w CountdownTick s =
              s\<lparr>level := 2, levelTransition := False, fallingBlocks := [], bullets := [],
                bulletsRef := [], countdown := 10\<rparr>)
       \<and> (levelTransition s \<and> countdown s = 10 \<longrightarrow>
            run w (replicate 10 CountdownTick) s =
              s\<lparr>level := 2, levelTransition := False, fallingBlocks := [], bullets := [],
                bulletsRef := [], countdown := 10\<rparr>)
       \<and> (levelTransition s \<longrightarrow>
            (playing (s\<lparr>level := 2, levelTransition := False, fallingBlocks := [],
                        bullets := [], bulletsRef := [], countdown := 10\<rparr>)
             \<longleftrightarrow> \<not> gameOver s))
       \<and> (levelTransition s \<and> e \<noteq> CountdownTick \<longrightarrow> step w e s = s)
       \<and> (PressButton \<notin> set evs' \<longrightarrow> transitionsStarted w evs' s \<le> 1)
       \<and> (level s = 2 \<longrightarrow> \<not> levelTransition (step w e s))"
proof -
  have li: "level_inv s"
    unfolding assms by (rule level_inv_run) (rule initial_invs)
  have ri: "ref_inv s"
    unfolding assms by (rule ref_inv_run) (rule initial_invs)
  have 1: "(\<not> levelTransition s \<and> levelTransition (step w e s)) \<longleftrightarrow>
            (level s = 1 \<and> \<not> levelTransition s \<and> score s < 50 \<and> 50 \<le> score (step w e s))"
    using li by (rule step_trigger_iff)
  have 2: "\<not> levelTransition s \<and> levelTransition (step w e s) \<longrightarrow>
            e = CollisionTick \<and> countdown (step w e s) = 10"
    using step_trigger_countdown [of s w e] by blast
  have 3: "levelTransition s \<and> 1 < countdown s \<longrightarrow>
            step w CountdownTick s = s\<lparr>countdown := countdown s - 1\<rparr>"
    using ri by (simp add: countdown_step_decrement)
  have 4: "levelTransition s \<and> countdown s = 1 \<longrightarrow>
            step w CountdownTick s =
              s\<lparr>level := 2, levelTransition := False, fallingBlocks := [], bullets := [],
                bulletsRef := [], countdown := 10\<rparr>"
    by (simp add: countdown_step_complete completed_def)
  have 5: "levelTransition s \<and> countdown s = 10 \<longrightarrow>
            run w (replicate 10 CountdownTick) s =
              s\<lparr>level := 2, levelTransition := False, fallingBlocks := [], bullets := [],
                bulletsRef := [], countdown := 10\<rparr>"
    using countdown_run_complete [OF ri, of 9 w] by (simp add: completed_def)
  have 6: "levelTransition s \<longrightarrow>
            (playing (s\<lparr>level := 2, levelTransition := False, fallingBlocks := [],
                        bullets := [], bulletsRef := [], countdown := 10\<rparr>)
             \<longleftrightarrow> \<not> gameOver s)"
    using li by (simp add: playing_def level_inv_def)
  have 7: "levelTransition s \<and> e \<noteq> CountdownTick \<longrightarrow> step w e s = s"
    using ri li by (simp add: suspended_during_transition)
  have 8: "PressButton \<notin> set evs' \<longrightarrow> transitionsStarted w evs' s \<le> 1"
    using transitionsStarted_phase [of evs' w s] by (cases "phase s = 0") auto
  have 9: "level s = 2 \<longrightarrow> \<not> levelTransition (step w e s)"
  proof
    assume l: "level s = 2"
    have n: "\<not> levelTransition s"
    proof
      assume "levelTransition s"
      with li have "level s = 1" by (simp add: level_inv_def)
      with l show False by simp
    qed
    from l have "level s \<noteq> 1" by simp
    then show "\<not> levelTransition (step w e s)" using n by (rule no_retrigger)
  qed
  show ?thesis by (intro conjI 1 2 3 4 5 6 7 8 9)
qed

theorem level_transition_once_witness:
  "\<not> levelTransition (run demo_window (butlast level_up_trace) (initial demo_window))
   \<and> levelTransition
       (step demo_window CollisionTick
          (run demo_window (butlast level_up_trace) (initial demo_window)))
   \<and> level (run demo_window (replicate 10 CountdownTick)
              (run demo_window level_up_trace (initial demo_window))) = 2
   \<and> playing (run demo_window (replicate 10 CountdownTick)
              (run demo_window level_up_trace (initial demo_window)))
   \<and> transitionsStarted demo_window (replicate 10 CountdownTick)
        (run demo_window level_up_trace (initial demo_window)) \<le> 1"
proof -
  let ?s0 = "run demo_window (butlast level_up_trace) (initial demo_window)"
  let ?s1 = "run demo_window level_up_trace (initial demo_window)"
  have s0: "?s0 =
     \<lparr> playerX = 175, bullets = [\<lparr>ident = 11500, xpos = 190, ypos = 95\<rparr>],
       fallingBlocks =
         [\<lparr>ident = 3000, xpos = 175, ypos = 70\<rparr>, \<lparr>ident = 5000, xpos = 175, ypos = 70\<rparr>,
          \<lparr>ident = 7000, xpos = 175, ypos = 70\<rparr>, \<lparr>ident = 9000, xpos = 175, ypos = 70\<rparr>,
          \<lparr>ident = 11000, xpos = 175, ypos = 70\<rparr>],
       gameOver = False, score = 0, gameStarted = True, level = 1,
       levelTransition = False, countdown = 10,
       bulletsRef = [\<lparr>ident = 11500, xpos = 190, ypos = 95\<rparr>] \<rparr>"
    by (simp add: level_up_trace_def eval_defs)
  have sc: "score (step demo_window CollisionTick ?s0) = 50"
    unfolding s0 by (simp add: step_def runEffects_def demo_window_def tick_defs)
  have a: "\<not> levelTransition ?s0 \<and> levelTransition (step demo_window CollisionTick ?s0)"
    using level_transition_once [of ?s0 demo_window "butlast level_up_trace" CollisionTick "[]"] sc
    by (simp add: s0)
  have c: "PressButton \<notin> set (replicate 10 CountdownTick)" by simp
  have b: "run demo_window (replicate 10 CountdownTick) ?s1 =
      ?s1\<lparr>level := 2, levelTransition := False, fallingBlocks := [], bullets := [],
          bulletsRef := [], countdown := 10\<rparr>"
    and d: "transitionsStarted demo_window (replicate 10 CountdownTick) ?s1 \<le> 1"
    using level_transition_once [of ?s1 demo_window level_up_trace CountdownTick "replicate 10 CountdownTick"] c
    by (simp_all add: level_up_state)
  from a b d show ?thesis
    by (simp add: level_up_state playing_def)
qed

text \<open>
  C10. In every state reached from the start screen, the countdown is between 1 and 10
  while the level transition is active and is 10 otherwise; a countdown tick above 1
  decrements it and keeps the transition active, and the tick at 1 ends the transition with
  the countdown back at 10, so the value 0 is never stored.
\<close>

theorem countdown_between_1_and_10:
  assumes "s = run w evs (initial w)"
  shows "(levelTransition s \<longrightarrow> 1 \<le> countdown s \<and> countdown s \<le> 10)
       \<and> (\<not> levelTransition s \<longrightarrow> countdown s = 10)
       \<and> (levelTransition s \<and> 1 < countdown s \<longrightarrow>
            levelTransition (step w CountdownTick s)
            \<and> countdown (step w CountdownTick s) = countdown s - 1)
       \<and> (levelTransition s \<and> countdown s = 1 \<longrightarrow>
            \<not> levelTransition (step w CountdownTick s)
            \<and> countdown (step w CountdownTick s) = 10)"
proof -
  have "countdown_inv s"
    unfolding assms by (rule countdown_inv_run) (rule initial_invs)
  then have 1: "levelTransition s \<longrightarrow> 1 \<le> countdown s \<and> countdown s \<le> 10"
    and 2: "\<not> levelTransition s \<longrightarrow> countdown s = 10"
    by (simp_all add: countdown_inv_def)
  have 3: "levelTransition s \<and> 1 < countdown s \<longrightarrow>
            levelTransition (step w CountdownTick s)
            \<and> countdown (step w CountdownTick s) = countdown s - 1"
    by (simp add: step_def runEffects_fields runEffects_countdown countdownInterval_def Let_def)
  have 4: "levelTransition s \<and> countdown s = 1 \<longrightarrow>
            \<not> levelTransition (step w CountdownTick s)
            \<and> countdown (step w CountdownTick s) = 10"
    by (simp add: step_def runEffects_fields runEffects_countdown countdownInterval_def Let_def)
  from 1 2 3 4 show ?thesis by blast
qed

theorem countdown_between_1_and_10_witness:
  "levelTransition (run demo_window (level_up_trace @ replicate 9 CountdownTick) (initial demo_window))
   \<and> countdown (run demo_window (level_up_trace @ replicate 9 CountdownTick) (initial demo_window)) = 1
   \<and> \<not> levelTransition (run demo_window (level_up_trace @ replicate 10 CountdownTick) (initial demo_window))
   \<and> countdown (run demo_window (level_up_trace @ replicate 10 CountdownTick) (initial demo_window)) = 10"
proof -
  let ?s = "run demo_window (level_up_trace @ replicate 9 CountdownTick) (initial demo_window)"
  have s: "?s = \<lparr> playerX = 175, bullets = [], fallingBlocks = [], gameOver = False,
       score = 50, gameStarted = True, level = 1, levelTransition = True, countdown = 1,
       bulletsRef = [] \<rparr>"
    by (simp add: run_append level_up_state)
      (simp add: run_def step_def runEffects_def countdownInterval_def eval_nat_numeral)
  have n: "run demo_window (level_up_trace @ replicate 10 CountdownTick) (initial demo_window)
             = step demo_window CountdownTick ?s"
    by (simp add: run_def eval_nat_numeral)
  from countdown_between_1_and_10 [of ?s demo_window "level_up_trace @ replicate 9 CountdownTick"]
  show ?thesis unfolding n by (simp add: s)
qed

section \<open>Entity ids\<close>






section \<open>Fire, reset and tilt\<close>

text \<open>
  C7. What the fire handler does in a playing state: it appends one bullet whose id is the
  clock reading, whose x is \<open>playerX + 15\<close> and whose y is \<open>screenHeight - 90\<close>. The bullet's
  bottom edge is the player's top edge; its centre is 5 to the left of the player's centre,
  because line 221 subtracts the whole bullet width where centring takes half of it.
\<close>

theorem fire_bullet_off_centre:
  assumes "playing s"
  shows "handleBullets w now s =
           s\<lparr>bullets := bullets s @
               [\<lparr> ident = now, xpos = playerX s + 15, ypos = screenHeight w - 90 \<rparr>]\<rparr>
       \<and> xpos (last (bullets (handleBullets w now s))) + BULLET_WIDTH / 2
           = playerX s + PLAYER_WIDTH / 2 - 5
       \<and> ypos (last (bullets (handleBullets w now s))) + BULLET_HEIGHT = playerTopY w"
  using assms
  by (simp add: handleBullets_accepted handleBullets_offset playerTopY_def consts_defs)

text \<open>
  The same at a concrete input: in the 400 by 800 window, right after the start button is
  pressed, the player is at x = 175 with its centre at 200; a press at clock reading 1000
  appends the bullet with x = 190 and y = 710, whose centre is at 195.
\<close>

theorem fire_bullet_off_centre_witness:
  "playing (step demo_window PressButton (initial demo_window))
   \<and> playerX (step demo_window PressButton (initial demo_window)) = 175
   \<and> bullets (handleBullets demo_window 1000 (step demo_window PressButton (initial demo_window)))
       = [\<lparr> ident = 1000, xpos = 190, ypos = 710 \<rparr>]
   \<and> xpos (last (bullets (handleBullets demo_window 1000
             (step demo_window PressButton (initial demo_window))))) + BULLET_WIDTH / 2 = 195"
proof -
  let ?s = "step demo_window PressButton (initial demo_window)"
  have s: "?s = \<lparr> playerX = 175, bullets = [], fallingBlocks = [], gameOver = False,
       score = 0, gameStarted = True, level = 1, levelTransition = False, countdown = 10,
       bulletsRef = [] \<rparr>"
    by (simp add: step_def runEffects_def handler_defs initial_def demo_window_def
          PLAYER_WIDTH_def)
  have p: "playing ?s" by (simp add: s playing_def)
  have h: "screenHeight demo_window = 800" by (simp add: demo_window_def)
  from fire_bullet_off_centre [OF p, of demo_window 1000] p show ?thesis
    unfolding s h by (simp add: consts_defs)
qed

text \<open>
  C8. From any state, \<^verbatim>\<open>resetGame\<close> yields the initial data with the game started: score 0,
  level 1, no bullets, no blocks, countdown 10, no level transition, no game over, and the
  player at \<open>(screenWidth - PLAYER_WIDTH) / 2\<close>; after the effects of the following render the
  ref is empty as well.
\<close>

theorem resetGame_restores_initial_data:
  "resetGame w s = (initial w)\<lparr>gameStarted := True, bulletsRef := bulletsRef s\<rparr>
   \<and> runEffects s (resetGame w s) = (initial w)\<lparr>gameStarted := True\<rparr>
   \<and> score (resetGame w s) = 0
   \<and> level (resetGame w s) = 1
   \<and> bullets (resetGame w s) = []
   \<and> fallingBlocks (resetGame w s) = []
   \<and> countdown (resetGame w s) = 10
   \<and> \<not> levelTransition (resetGame w s)
   \<and> \<not> gameOver (resetGame w s)
   \<and> playerX (resetGame w s) = (screenWidth w - PLAYER_WIDTH) / 2"
  by (cases s) (simp add: resetGame_def initial_def runEffects_def Let_def)

text \<open>
  C9. On a screen at least as wide as the player, for every tilt value and every previous
  position the new position computed by the accelerometer listener lies between 0 and
  \<open>screenWidth - PLAYER_WIDTH\<close>, and so does the player's position in every state reached
  from the start screen.
\<close>

theorem tilt_keeps_player_on_screen:
  assumes "PLAYER_WIDTH \<le> screenWidth w"
  shows "0 \<le> tiltUpdate w tilt prevX
       \<and> tiltUpdate w tilt prevX \<le> screenWidth w - PLAYER_WIDTH
       \<and> (playing s \<longrightarrow> playerX (accelerometerListener w tilt s) = tiltUpdate w tilt (playerX s))
       \<and> 0 \<le> playerX (run w evs (initial w))
       \<and> playerX (run w evs (initial w)) \<le> screenWidth w - PLAYER_WIDTH"
proof -
  have "player_inv w (run w evs (initial w))"
    using assms by (intro player_inv_run initial_player_inv)
  then show ?thesis
    using tiltUpdate_range [OF assms, of tilt prevX]
    by (simp add: player_inv_def accelerometerListener_def)
qed

theorem tilt_keeps_player_on_screen_witness:
  "PLAYER_WIDTH \<le> screenWidth demo_window
   \<and> tiltUpdate demo_window 1000000 175 = 350
   \<and> tiltUpdate demo_window (- 1000000) 175 = 0
   \<and> playerX (run demo_window [PressButton, Tilt 1000000] (initial demo_window)) = 350
   \<and> 0 \<le> tiltUpdate demo_window 1000000 175
   \<and> tiltUpdate demo_window 1000000 175 \<le> screenWidth demo_window - PLAYER_WIDTH"
proof -
  have h: "PLAYER_WIDTH \<le> screenWidth demo_window"
    by (simp add: demo_window_def PLAYER_WIDTH_def)
  have v: "tiltUpdate demo_window 1000000 175 = 350" "tiltUpdate demo_window (- 1000000) 175 = 0"
    "playerX (run demo_window [PressButton, Tilt 1000000] (initial demo_window)) = 350"
    by (simp_all add: eval_defs)
  from tilt_keeps_player_on_screen [OF h, of 1000000 175] h v show ?thesis by simp
qed

section \<open>The collision test\<close>

text \<open>
  C5. \<open>isColliding\<close> holds exactly when the four strict inequalities hold; rectangles that
  only touch along an edge, on either axis and on either side, do not collide.
\<close>

theorem isColliding_iff_strict:
  "(isColliding a b aw ah bw bh \<longleftrightarrow>
      xpos a < xpos b + bw \<and> xpos a + aw > xpos b \<and>
      ypos a < ypos b + bh \<and> ypos a + ah > ypos b)
   \<and> \<not> isColliding (a\<lparr>xpos := xpos b + bw\<rparr>) b aw ah bw bh
   \<and> \<not> isColliding (a\<lparr>xpos := xpos b - aw\<rparr>) b aw ah bw bh
   \<and> \<not> isColliding (a\<lparr>ypos := ypos b + bh\<rparr>) b aw ah bw bh
   \<and> \<not> isColliding (a\<lparr>ypos := ypos b - ah\<rparr>) b aw ah bw bh"
  by (simp add: isColliding_def)

end
